theory Spec2Isabelle
  imports Main
begin

section \<open>Python values, exceptions and the footprint\<close>

text \<open>
  The module \<^verbatim>\<open>pybryt/student.py\<close> is dynamically typed: the argument \<^verbatim>\<open>ref\<close> of both
  \<^verbatim>\<open>check\<close> functions can be any Python object, and the code dispatches on
  \<^verbatim>\<open>isinstance\<close>. The values below are the ones the dispatch distinguishes: a
  \<^verbatim>\<open>ReferenceImplementation\<close> object, a \<^verbatim>\<open>str\<close>, a \<^verbatim>\<open>list\<close>, a \<^verbatim>\<open>tuple\<close> (an iterable that
  is not a list) and \<^verbatim>\<open>None\<close> (an object that is none of these and cannot be iterated).
\<close>

datatype 'r pyval =
    RI 'r
  | Str string
  | PyList "'r pyval list"
  | PyTuple "'r pyval list"
  | PyNone

text \<open>The exceptions the module raises itself or lets through from Python and its libraries.\<close>

datatype py_error =
    TypeError
  | ValueError
  | AttributeError
  | IndexError
  | RuntimeError
  | FileNotFoundError
  | OtherError string

text \<open>The memory footprint: \<^verbatim>\<open>List[Tuple[Any, int]]\<close>, values with their timestamps.\<close>

type_synonym 'v footprint = "('v \<times> int) list"

text \<open>
  \<^verbatim>\<open>isinstance(x, ReferenceImplementation)\<close>, \<^verbatim>\<open>isinstance(x, str)\<close> and
  \<^verbatim>\<open>isinstance(x, list)\<close>.
\<close>

fun isinstance_ReferenceImplementation :: "'r pyval \<Rightarrow> bool" where
  "isinstance_ReferenceImplementation (RI r) = True"
| "isinstance_ReferenceImplementation (Str s) = False"
| "isinstance_ReferenceImplementation (PyList xs) = False"
| "isinstance_ReferenceImplementation (PyTuple xs) = False"
| "isinstance_ReferenceImplementation PyNone = False"

fun isinstance_str :: "'r pyval \<Rightarrow> bool" where
  "isinstance_str (RI r) = False"
| "isinstance_str (Str s) = True"
| "isinstance_str (PyList xs) = False"
| "isinstance_str (PyTuple xs) = False"
| "isinstance_str PyNone = False"

fun isinstance_list :: "'r pyval \<Rightarrow> bool" where
  "isinstance_list (RI r) = False"
| "isinstance_list (Str s) = False"
| "isinstance_list (PyList xs) = True"
| "isinstance_list (PyTuple xs) = False"
| "isinstance_list PyNone = False"

text \<open>
  Modelled from the spec: the class \<^verbatim>\<open>ReferenceImplementation\<close> lives in
  \<^verbatim>\<open>pybryt/reference.py\<close>, which is not among the sources; the interface the specification
  lists for it is \<^verbatim>\<open>run\<close> and \<^verbatim>\<open>load\<close> only, so the object is not iterable and
  \<^verbatim>\<open>for r in ref\<close> over it raises \<^verbatim>\<open>TypeError\<close>, as it does over \<^verbatim>\<open>None\<close>. The other cases
  are Python's: iterating a list or a tuple gives its elements, iterating a string its
  characters as strings of length one.
\<close>

fun py_iter :: "'r pyval \<Rightarrow> py_error + 'r pyval list" where
  "py_iter (PyList xs) = Inr xs"
| "py_iter (PyTuple xs) = Inr xs"
| "py_iter (Str s) = Inr (map (\<lambda>c. Str [c]) s)"
| "py_iter (RI r) = Inl TypeError"
| "py_iter PyNone = Inl TypeError"

text \<open>\<^verbatim>\<open>max(...)\<close> over an iterable of integers: \<^verbatim>\<open>ValueError\<close> when there is nothing to take the
  maximum of.\<close>

fun py_max :: "int list \<Rightarrow> py_error + int" where
  "py_max [] = Inl ValueError"
| "py_max (t # ts) = Inr (fold max ts t)"

section \<open>The class StudentImplementation\<close>

text \<open>
  The four attributes of the class. \<^verbatim>\<open>nb\<close> and \<^verbatim>\<open>nb_path\<close> are \<^verbatim>\<open>Optional\<close> in the source
  and hold \<^verbatim>\<open>None\<close> as a value. \<^verbatim>\<open>values\<close> and \<^verbatim>\<open>steps\<close> are only annotated in the class
  body: an instance has them once a method has assigned them, and reading one before that
  raises \<^verbatim>\<open>AttributeError\<close>; here \<open>None\<close> in these two fields means the attribute is not set.
  (The attribute \<^verbatim>\<open>values\<close> is the field \<open>values'\<close>.)
\<close>

record ('nb, 'v) StudentImplementation =
  nb :: "'nb option"
  nb_path :: "string option"
  values' :: "'v footprint option"
  steps :: "int option"

text \<open>What \<^verbatim>\<open>path_or_nb\<close> can be in \<^verbatim>\<open>__init__\<close>: \<^verbatim>\<open>None\<close>, a \<^verbatim>\<open>str\<close>, a notebook node, or
  anything else.\<close>

datatype 'nb path_or_nb = PathNone | PathStr string | Notebook 'nb | PathOther

text \<open>Lines 47 to 50 of \<^verbatim>\<open>__init__\<close>: with \<^verbatim>\<open>None\<close> the constructor sets the two metadata
  attributes to \<^verbatim>\<open>None\<close> and returns, leaving \<^verbatim>\<open>values\<close> and \<^verbatim>\<open>steps\<close> unset.\<close>

definition init_None :: "('nb, 'v) StudentImplementation" where
  "init_None = \<lparr>nb = None, nb_path = None, values' = None, steps = None\<rparr>"

text \<open>
  \<^verbatim>\<open>_execute\<close>: runs the notebook and stores the step count and the footprint. The execution
  engine's \<^verbatim>\<open>execute_notebook\<close> is a parameter.
\<close>

definition execute ::
  "('nb option \<Rightarrow> string option \<Rightarrow> string list \<Rightarrow> string option \<Rightarrow> py_error + (int \<times> 'v footprint))
   \<Rightarrow> ('nb, 'v) StudentImplementation \<Rightarrow> string list \<Rightarrow> string option
   \<Rightarrow> py_error + ('nb, 'v) StudentImplementation" where
  "execute execute_notebook self addl_filenames output =
     (case execute_notebook (nb self) (nb_path self) addl_filenames output of
        Inl e \<Rightarrow> Inl e
      | Inr (s, vs) \<Rightarrow> Inr (self\<lparr>steps := Some s, values' := Some vs\<rparr>))"

text \<open>\<^verbatim>\<open>__init__\<close>; \<^verbatim>\<open>nbformat.read\<close> is a parameter.\<close>

definition init ::
  "(string \<Rightarrow> py_error + 'nb)
   \<Rightarrow> ('nb option \<Rightarrow> string option \<Rightarrow> string list \<Rightarrow> string option \<Rightarrow> py_error + (int \<times> 'v footprint))
   \<Rightarrow> 'nb path_or_nb \<Rightarrow> string list \<Rightarrow> string option
   \<Rightarrow> py_error + ('nb, 'v) StudentImplementation" where
  "init nbformat_read execute_notebook path_or_nb addl_filenames output =
     (case path_or_nb of
        PathNone \<Rightarrow> Inr init_None
      | PathStr p \<Rightarrow>
          (case nbformat_read p of
             Inl e \<Rightarrow> Inl e
           | Inr n \<Rightarrow> execute execute_notebook
                       (init_None\<lparr>nb := Some n, nb_path := Some p\<rparr>) addl_filenames output)
      | Notebook n \<Rightarrow>
          execute execute_notebook
            (init_None\<lparr>nb := Some n, nb_path := Some []\<rparr>) addl_filenames output
      | PathOther \<Rightarrow> Inl TypeError)"

text \<open>\<^verbatim>\<open>from_footprint\<close>: \<^verbatim>\<open>cls(None)\<close>, then the two assignments.\<close>

definition from_footprint :: "'v footprint \<Rightarrow> int \<Rightarrow> ('nb, 'v) StudentImplementation" where
  "from_footprint footprint steps_arg =
     (let stu = init_None;
          stu = stu\<lparr>steps := Some steps_arg\<rparr>;
          stu = stu\<lparr>values' := Some footprint\<rparr>
      in stu)"

subsection \<open>The checking dispatcher\<close>

text \<open>What \<^verbatim>\<open>StudentImplementation.check\<close> returns: one bare result or a list of results.\<close>

datatype 'res check_result = Single 'res | Many "'res list"

text \<open>
  The list comprehension \<^verbatim>\<open>[r.run(self.values, group=group) for r in ref]\<close>. For each element
  in order Python looks up \<^verbatim>\<open>r.run\<close>, which only a reference implementation has, then reads
  \<^verbatim>\<open>self.values\<close>; either failure is an \<^verbatim>\<open>AttributeError\<close>. The method \<^verbatim>\<open>run\<close> of the
  reference implementation is the parameter \<open>run\<close>.
\<close>

fun run_each ::
  "('r \<Rightarrow> 'v footprint \<Rightarrow> string option \<Rightarrow> 'res) \<Rightarrow> 'v footprint option \<Rightarrow> string option
   \<Rightarrow> 'r pyval list \<Rightarrow> py_error + 'res list" where
  "run_each run vals grp [] = Inr []"
| "run_each run vals grp (x # xs) =
     (case x of
        RI r \<Rightarrow>
          (case vals of
             None \<Rightarrow> Inl AttributeError
           | Some fp \<Rightarrow>
               (case run_each run vals grp xs of
                  Inl e \<Rightarrow> Inl e
                | Inr rs \<Rightarrow> Inr (run r fp grp # rs)))
      | _ \<Rightarrow> Inl AttributeError)"

text \<open>
  \<^verbatim>\<open>StudentImplementation.check\<close>, in state-passing style: the first component is the
  object \<^verbatim>\<open>self\<close> after the call, the second what the call returns or raises.
\<close>

definition StudentImplementation_check ::
  "('r \<Rightarrow> 'v footprint \<Rightarrow> string option \<Rightarrow> 'res) \<Rightarrow> ('nb, 'v) StudentImplementation
   \<Rightarrow> 'r pyval \<Rightarrow> string option
   \<Rightarrow> ('nb, 'v) StudentImplementation \<times> (py_error + 'res check_result)" where
  "StudentImplementation_check run self ref grp =
     (case ref of
        RI r \<Rightarrow>
          (case values' self of
             None \<Rightarrow> (self, Inl AttributeError)
           | Some fp \<Rightarrow> (self, Inr (Single (run r fp grp))))
      | PyList xs \<Rightarrow>
          (case run_each run (values' self) grp xs of
             Inl e \<Rightarrow> (self, Inl e)
           | Inr rs \<Rightarrow> (self, Inr (Many rs)))
      | _ \<Rightarrow> (self, Inl TypeError))"

subsection \<open>Serialization\<close>

text \<open>
  The functions the four serialization methods call, as parameters: the builtin
  \<^verbatim>\<open>open(dest, "wb+")\<close> (the exception it raises when the path cannot be opened for
  writing, if any), \<^verbatim>\<open>dill.dump\<close> (the bytes it writes to the open file and the exception
  it raises, if any), \<^verbatim>\<open>dill.load\<close>, \<^verbatim>\<open>dill.dumps\<close>, \<^verbatim>\<open>dill.loads\<close>, \<^verbatim>\<open>base64.b64encode\<close>,
  \<^verbatim>\<open>base64.b64decode\<close>, \<^verbatim>\<open>bytes.decode("ascii")\<close> and \<^verbatim>\<open>str.encode("ascii")\<close>. The type
  \<open>'a\<close> is the pickled object, \<open>'b\<close> is \<^verbatim>\<open>bytes\<close>.
\<close>

record ('a, 'b) library =
  open_wb :: "string \<Rightarrow> py_error option"
  dill_dump :: "'a \<Rightarrow> 'b \<times> py_error option"
  dill_load :: "'b \<Rightarrow> py_error + 'a"
  dill_dumps :: "'a \<Rightarrow> py_error + 'b"
  dill_loads :: "'b \<Rightarrow> py_error + 'a"
  b64encode :: "'b \<Rightarrow> 'b"
  b64decode :: "'b \<Rightarrow> py_error + 'b"
  decode_ascii :: "'b \<Rightarrow> py_error + string"
  encode_ascii :: "string \<Rightarrow> py_error + 'b"

text \<open>
  \<^verbatim>\<open>dump\<close>: opens \<^verbatim>\<open>dest\<close> for writing (the file system is a map from paths to contents)
  and lets \<^verbatim>\<open>dill.dump\<close> write into it. When \<^verbatim>\<open>open\<close> raises, nothing is written and
  \<^verbatim>\<open>dill.dump\<close> is not called. The result is \<^verbatim>\<open>self\<close> after the call, the file system
  after the call, and the exception raised, if any.
\<close>

definition dump ::
  "(('nb, 'v) StudentImplementation, 'b) library \<Rightarrow> ('nb, 'v) StudentImplementation \<Rightarrow> string
   \<Rightarrow> (string \<rightharpoonup> 'b)
   \<Rightarrow> ('nb, 'v) StudentImplementation \<times> (string \<rightharpoonup> 'b) \<times> py_error option" where
  "dump lib self dest files =
     (case open_wb lib dest of
        Some e \<Rightarrow> (self, files, Some e)
      | None \<Rightarrow>
          (let (bits, exc) = dill_dump lib self
           in (self, files(dest \<mapsto> bits), exc)))"

text \<open>\<^verbatim>\<open>dumps\<close>: \<^verbatim>\<open>self\<close> after the call, and the string returned or the exception raised.\<close>

definition dumps ::
  "(('nb, 'v) StudentImplementation, 'b) library \<Rightarrow> ('nb, 'v) StudentImplementation
   \<Rightarrow> ('nb, 'v) StudentImplementation \<times> (py_error + string)" where
  "dumps lib self =
     (case dill_dumps lib self of
        Inl e \<Rightarrow> (self, Inl e)
      | Inr bits \<Rightarrow> (self, decode_ascii lib (b64encode lib bits)))"

text \<open>\<^verbatim>\<open>load\<close> (a static method): opens the file for reading and unpickles its content.\<close>

definition load ::
  "(('nb, 'v) StudentImplementation, 'b) library \<Rightarrow> string \<Rightarrow> (string \<rightharpoonup> 'b)
   \<Rightarrow> py_error + ('nb, 'v) StudentImplementation" where
  "load lib file files =
     (case files file of
        None \<Rightarrow> Inl FileNotFoundError
      | Some bits \<Rightarrow> dill_load lib bits)"

text \<open>\<^verbatim>\<open>loads\<close> (a class method).\<close>

definition loads ::
  "(('nb, 'v) StudentImplementation, 'b) library \<Rightarrow> string
   \<Rightarrow> py_error + ('nb, 'v) StudentImplementation" where
  "loads lib data =
     (case encode_ascii lib data of
        Inl e \<Rightarrow> Inl e
      | Inr encoded \<Rightarrow>
          (case b64decode lib encoded of
             Inl e \<Rightarrow> Inl e
           | Inr bits \<Rightarrow> dill_loads lib bits))"

subsection \<open>Plagiarism checking\<close>

text \<open>
  Modelled from the spec: \<^verbatim>\<open>create_references\<close> is defined in \<^verbatim>\<open>pybryt/plagiarism.py\<close>,
  which is not among the sources. The specification gives it the interface
  \<^verbatim>\<open>create_references(list_of_artifacts, **options) -> list_of_reference_implementations\<close>
  and has it synthesize the reference implementation representing an artifact with the
  options forwarded; \<open>synthesize\<close> is that synthesis for one artifact.
\<close>

definition create_references :: "('a \<Rightarrow> 'k \<Rightarrow> 'r) \<Rightarrow> 'a list \<Rightarrow> 'k \<Rightarrow> 'r list" where
  "create_references synthesize impls kwargs = map (\<lambda>stu. synthesize stu kwargs) impls"

text \<open>
  Modelled from the spec: \<^verbatim>\<open>get_impl_results\<close> is defined in \<^verbatim>\<open>pybryt/plagiarism.py\<close>,
  which is not among the sources. The specification gives it the interface
  \<^verbatim>\<open>get_impl_results(reference_implementation, peer_artifacts, **options) -> list_of_results\<close>:
  for each peer artifact a result is obtained from the peer comparator with the reference
  and the same options, result number i belonging to peer number i; \<open>compare\<close> is that
  comparison for one peer.
\<close>

definition get_impl_results :: "('r \<Rightarrow> 'a \<Rightarrow> 'k \<Rightarrow> 'res) \<Rightarrow> 'r \<Rightarrow> 'a list \<Rightarrow> 'k \<Rightarrow> 'res list" where
  "get_impl_results compare ref student_impls kwargs =
     map (\<lambda>stu. compare ref stu kwargs) student_impls"

text \<open>\<^verbatim>\<open>check_plagiarism\<close>; \<^verbatim>\<open>refs[0]\<close> raises \<^verbatim>\<open>IndexError\<close> on an empty list.\<close>

definition check_plagiarism ::
  "(('nb, 'v) StudentImplementation \<Rightarrow> 'k \<Rightarrow> 'r)
   \<Rightarrow> ('r \<Rightarrow> ('nb, 'v) StudentImplementation \<Rightarrow> 'k \<Rightarrow> 'res)
   \<Rightarrow> ('nb, 'v) StudentImplementation \<Rightarrow> ('nb, 'v) StudentImplementation list \<Rightarrow> 'k
   \<Rightarrow> ('nb, 'v) StudentImplementation \<times> (py_error + 'res list)" where
  "check_plagiarism synthesize compare self student_impls kwargs =
     (let refs = create_references synthesize [self] kwargs
      in case refs of
           [] \<Rightarrow> (self, Inl IndexError)
         | r0 # _ \<Rightarrow> (self, Inr (get_impl_results compare r0 student_impls kwargs)))"

section \<open>The context manager check\<close>

subsection \<open>The execution engine\<close>

text \<open>
  The process-wide state the context manager works on. \<open>tracer\<close> is the collector whose
  tracing function is installed (\<open>None\<close> when tracing is off), \<open>collectors\<close> holds, for each
  collector created so far, the keyword arguments it was created with and its list
  \<^verbatim>\<open>observed\<close>, \<open>activations\<close> counts the calls of \<^verbatim>\<open>tracing_on\<close>, and \<open>stdout\<close> is what
  \<^verbatim>\<open>print\<close> has written, one entry per call.
\<close>

record ('k, 'v, 'm) world =
  tracer :: "nat option"
  collectors :: "('k \<times> 'v footprint) list"
  activations :: nat
  stdout :: "'m list list"

text \<open>
  The four functions the context manager imports from \<^verbatim>\<open>pybryt/execution.py\<close> are not
  among the sources. The specification gives them the interfaces
  \<^verbatim>\<open>is_tracing_active() -> bool\<close>,
  \<^verbatim>\<open>create_collector(**config) -> (footprint_handle, collector_token)\<close>,
  \<^verbatim>\<open>enable_tracing(caller_context, collector_token)\<close> and
  \<^verbatim>\<open>disable_tracing(caller_context)\<close>, over a process-wide state with at most one active
  collector. The frame two levels up the call stack, which the source passes as
  \<^verbatim>\<open>frame\<close>, is the caller's with-statement at entry and at exit alike, and is not
  represented.
\<close>

text \<open>Modelled from the spec: \<^verbatim>\<open>_currently_tracing\<close> tells whether instrumentation is
  active, that is, whether a tracing function is installed.\<close>

definition currently_tracing :: "('k, 'v, 'm) world \<Rightarrow> bool" where
  "currently_tracing w = (tracer w \<noteq> None)"

text \<open>Modelled from the spec: \<^verbatim>\<open>create_collector\<close> makes a new collector from the keyword
  arguments, with an empty footprint, and returns the handle of its list \<^verbatim>\<open>observed\<close> and
  its tracing function; the collector's index in \<open>collectors\<close> stands for both.\<close>

definition create_collector :: "'k \<Rightarrow> ('k, 'v, 'm) world \<Rightarrow> nat \<times> ('k, 'v, 'm) world" where
  "create_collector kwargs w =
     (length (collectors w), w\<lparr>collectors := collectors w @ [(kwargs, [])]\<rparr>)"

text \<open>Modelled from the spec: \<^verbatim>\<open>tracing_on\<close> with a tracing function installs it, whatever
  was installed before.\<close>

definition tracing_on :: "nat \<Rightarrow> ('k, 'v, 'm) world \<Rightarrow> ('k, 'v, 'm) world" where
  "tracing_on cir w = w\<lparr>tracer := Some cir, activations := activations w + 1\<rparr>"

text \<open>Modelled from the spec: \<^verbatim>\<open>tracing_off\<close> removes the installed tracing function; with
  \<^verbatim>\<open>save_func=False\<close> nothing is kept of it.\<close>

definition tracing_off :: "('k, 'v, 'm) world \<Rightarrow> ('k, 'v, 'm) world" where
  "tracing_off w = w\<lparr>tracer := None\<rparr>"

text \<open>The list \<^verbatim>\<open>observed\<close> of a collector, read through its handle.\<close>

definition observed :: "nat \<Rightarrow> ('k, 'v, 'm) world \<Rightarrow> 'v footprint" where
  "observed c w = (if c < length (collectors w) then snd (collectors w ! c) else [])"

text \<open>
  Modelled from the spec: while tracing is on, the installed collector appends each
  observation, a value with its timestamp, to its footprint, in the order of observation;
  while tracing is off nothing is recorded.
\<close>

definition record_observation :: "'v \<times> int \<Rightarrow> ('k, 'v, 'm) world \<Rightarrow> ('k, 'v, 'm) world" where
  "record_observation ob w =
     (case tracer w of
        None \<Rightarrow> w
      | Some c \<Rightarrow>
          (if c < length (collectors w)
           then w\<lparr>collectors :=
                    (collectors w)[c := (fst (collectors w ! c), snd (collectors w ! c) @ [ob])]\<rparr>
           else w))"

text \<open>\<^verbatim>\<open>print\<close>.\<close>

definition print_line :: "'m list \<Rightarrow> ('k, 'v, 'm) world \<Rightarrow> ('k, 'v, 'm) world" where
  "print_line ms w = w\<lparr>stdout := stdout w @ [ms]\<rparr>"

subsection \<open>The block under the with-statement\<close>

text \<open>
  The block the context manager wraps is the caller's code: a function from the state
  before it to the state after it, with the exception it raised, if any. The three
  combinators build blocks for concrete scenarios: a statement whose value the engine
  observes, a statement that raises, and sequencing, which stops at the first exception.
\<close>

type_synonym ('k, 'v, 'm) block = "('k, 'v, 'm) world \<Rightarrow> ('k, 'v, 'm) world \<times> py_error option"

definition observe :: "'v \<Rightarrow> int \<Rightarrow> ('k, 'v, 'm) block" where
  "observe v t w = (record_observation (v, t) w, None)"

definition raise :: "py_error \<Rightarrow> ('k, 'v, 'm) block" where
  "raise e w = (w, Some e)"

definition pass :: "('k, 'v, 'm) block" where
  "pass w = (w, None)"

definition seq :: "('k, 'v, 'm) block \<Rightarrow> ('k, 'v, 'm) block \<Rightarrow> ('k, 'v, 'm) block" where
  "seq b1 b2 w =
     (case b1 w of
        (w1, None) \<Rightarrow> b2 w1
      | (w1, Some e) \<Rightarrow> (w1, Some e))"

subsection \<open>Validation of the references (lines 187 to 197)\<close>

text \<open>Lines 187 and 188: a string is loaded and wrapped in a list.
  \<^verbatim>\<open>ReferenceImplementation.load\<close> is the parameter \<open>ref_load\<close>.\<close>

fun check_str :: "(string \<Rightarrow> py_error + 'r) \<Rightarrow> 'r pyval \<Rightarrow> py_error + 'r pyval" where
  "check_str ref_load (Str s) =
     (case ref_load s of
        Inl e \<Rightarrow> Inl e
      | Inr r \<Rightarrow> Inr (PyList [RI r]))"
| "check_str ref_load ref = Inr ref"

text \<open>The list comprehension of line 195, over the strings of the list.\<close>

fun load_each :: "(string \<Rightarrow> py_error + 'r) \<Rightarrow> string list \<Rightarrow> py_error + 'r pyval list" where
  "load_each ref_load [] = Inr []"
| "load_each ref_load (s # ss) =
     (case ref_load s of
        Inl e \<Rightarrow> Inl e
      | Inr r \<Rightarrow>
          (case load_each ref_load ss of
             Inl e \<Rightarrow> Inl e
           | Inr rs \<Rightarrow> Inr (RI r # rs)))"

text \<open>Lines 189 to 195: a list must not be empty, and must hold reference implementations
  only or strings only; strings are loaded.\<close>

fun check_list :: "(string \<Rightarrow> py_error + 'r) \<Rightarrow> 'r pyval \<Rightarrow> py_error + 'r pyval" where
  "check_list ref_load (PyList xs) =
     (if length xs = 0 then Inl ValueError
      else if \<not> list_all isinstance_ReferenceImplementation xs then
        (if \<not> list_all isinstance_str xs then Inl TypeError
         else
           (case load_each ref_load [s. Str s \<leftarrow> xs] of
              Inl e \<Rightarrow> Inl e
            | Inr rs \<Rightarrow> Inr (PyList rs)))
      else Inr (PyList xs))"
| "check_list ref_load ref = Inr ref"

text \<open>Lines 196 and 197: whatever \<^verbatim>\<open>ref\<close> is by now is iterated, and every element must be
  a reference implementation.\<close>

definition check_all :: "'r pyval \<Rightarrow> py_error + 'r pyval" where
  "check_all ref =
     (case py_iter ref of
        Inl e \<Rightarrow> Inl e
      | Inr rs \<Rightarrow>
          (if \<not> list_all isinstance_ReferenceImplementation rs then Inl TypeError
           else Inr ref))"

text \<open>Lines 187 to 197 in sequence.\<close>

definition check_validate :: "(string \<Rightarrow> py_error + 'r) \<Rightarrow> 'r pyval \<Rightarrow> py_error + 'r pyval" where
  "check_validate ref_load ref =
     (case check_str ref_load ref of
        Inl e \<Rightarrow> Inl e
      | Inr ref1 \<Rightarrow>
          (case check_list ref_load ref1 of
             Inl e \<Rightarrow> Inl e
           | Inr ref2 \<Rightarrow> check_all ref2))"

subsection \<open>The generator\<close>

text \<open>Lines 187 to 202, from the validation to the installation of the tracing function:
  the references as normalized, the new collector and the state, or the exception.\<close>

definition check_setup ::
  "(string \<Rightarrow> py_error + 'r) \<Rightarrow> 'r pyval \<Rightarrow> 'k \<Rightarrow> ('k, 'v, 'm) world
   \<Rightarrow> py_error + ('r pyval \<times> nat \<times> ('k, 'v, 'm) world)" where
  "check_setup ref_load ref kwargs w =
     (case check_validate ref_load ref of
        Inl e \<Rightarrow> Inl e
      | Inr ref' \<Rightarrow>
          (let (c, w1) = create_collector kwargs w;
               w2 = tracing_on c w1
           in Inr (ref', c, w2)))"

text \<open>Line 208: the student implementation built from the collected footprint.\<close>

definition check_artifact :: "'v footprint \<Rightarrow> py_error + ('nb, 'v) StudentImplementation" where
  "check_artifact obs =
     (case py_max (map snd obs) of
        Inl e \<Rightarrow> Inl e
      | Inr m \<Rightarrow> Inr (from_footprint obs m))"

text \<open>
  Line 210: \<^verbatim>\<open>print([r.messages for r in res])\<close>. A list of results is iterated, and the
  attribute \<^verbatim>\<open>messages\<close> of a result is the parameter \<open>messages\<close>. A bare result would
  not be iterable; line 210 is never reached with one, since the references that pass the
  validation are a list or a tuple.
\<close>

definition check_report ::
  "('res \<Rightarrow> 'm) \<Rightarrow> 'res check_result \<Rightarrow> ('k, 'v, 'm) world
   \<Rightarrow> ('k, 'v, 'm) world \<times> py_error option" where
  "check_report messages res w =
     (case res of
        Many rs \<Rightarrow> (print_line (map messages rs) w, None)
      | Single r \<Rightarrow> (w, Some TypeError))"

text \<open>Lines 206 to 210, the part of the generator after the second \<^verbatim>\<open>yield\<close>.\<close>

definition check_teardown ::
  "('r \<Rightarrow> 'v footprint \<Rightarrow> string option \<Rightarrow> 'res) \<Rightarrow> ('res \<Rightarrow> 'm) \<Rightarrow> 'r pyval \<Rightarrow> nat
   \<Rightarrow> ('k, 'v, 'm) world \<Rightarrow> ('k, 'v, 'm) world \<times> py_error option" where
  "check_teardown run messages ref c w =
     (let w1 = tracing_off w
      in case (check_artifact (observed c w1) :: py_error + (unit, 'v) StudentImplementation) of
           Inl e \<Rightarrow> (w1, Some e)
         | Inr stu \<Rightarrow>
             (case snd (StudentImplementation_check run stu ref None) of
                Inl e \<Rightarrow> (w1, Some e)
              | Inr res \<Rightarrow> check_report messages res w1))"

text \<open>
  The with-statement \<^verbatim>\<open>with check(ref, **kwargs): block\<close>, under the protocol of
  \<^verbatim>\<open>contextlib.contextmanager\<close>. Entering runs the generator to its first \<^verbatim>\<open>yield\<close>; an
  exception before it leaves the with-statement without running the block. Then the block
  runs. If the block raises, the exception is thrown into the generator at the \<^verbatim>\<open>yield\<close>
  where it is suspended; the generator has no handler there, so the exception leaves the
  generator and the with-statement at once. If the block completes, the generator is
  resumed after that \<^verbatim>\<open>yield\<close> and must finish: when it reaches another \<^verbatim>\<open>yield\<close> instead,
  the context manager raises \<^verbatim>\<open>RuntimeError\<close> (generator didn't stop).

  When tracing is already on, the first \<^verbatim>\<open>yield\<close> is that of line 185. There is no
  \<^verbatim>\<open>return\<close> after it, so on resumption the generator goes on with line 187 and reaches
  the \<^verbatim>\<open>yield\<close> of line 204.
\<close>

definition check ::
  "('r \<Rightarrow> 'v footprint \<Rightarrow> string option \<Rightarrow> 'res) \<Rightarrow> (string \<Rightarrow> py_error + 'r) \<Rightarrow> ('res \<Rightarrow> 'm)
   \<Rightarrow> 'r pyval \<Rightarrow> 'k \<Rightarrow> ('k, 'v, 'm) block \<Rightarrow> ('k, 'v, 'm) block" where
  "check run ref_load messages ref kwargs block w =
     (if currently_tracing w then
        (case block w of
           (w1, Some e) \<Rightarrow> (w1, Some e)
         | (w1, None) \<Rightarrow>
             (case check_setup ref_load ref kwargs w1 of
                Inl e \<Rightarrow> (w1, Some e)
              | Inr (ref', c, w2) \<Rightarrow> (w2, Some RuntimeError)))
      else
        (case check_setup ref_load ref kwargs w of
           Inl e \<Rightarrow> (w, Some e)
         | Inr (ref', c, w1) \<Rightarrow>
             (case block w1 of
                (w2, Some e) \<Rightarrow> (w2, Some e)
              | (w2, None) \<Rightarrow> check_teardown run messages ref' c w2)))"

subsection \<open>A concrete scenario\<close>

text \<open>
  The state before any check, with tracing off; reference implementations that are
  numbers, \<^verbatim>\<open>run\<close> giving the number plus the length of the footprint; one persisted
  reference, \<^verbatim>\<open>ref.pkl\<close>; and results that are their own messages.
\<close>

definition idle :: "(unit, nat, nat) world" where
  "idle = \<lparr>tracer = None, collectors = [], activations = 0, stdout = []\<rparr>"

definition example_run :: "nat \<Rightarrow> nat footprint \<Rightarrow> string option \<Rightarrow> nat" where
  "example_run r fp grp = r + length fp"

definition example_load :: "string \<Rightarrow> py_error + nat" where
  "example_load s = (if s = ''ref.pkl'' then Inr 7 else Inl FileNotFoundError)"

definition example_messages :: "nat \<Rightarrow> nat" where
  "example_messages res = res"

text \<open>The state inside a with-block of an active check: the tracing function of collector 0
  is installed, and the collector has made one observation.\<close>

definition traced :: "(unit, nat, nat) world" where
  "traced = \<lparr>tracer = Some 0, collectors = [((), [(1, 0)])], activations = 1, stdout = []\<rparr>"

text \<open>The footprint of the specification's scenario, and a student implementation that
  owns it.\<close>

definition example_footprint :: "nat footprint" where
  "example_footprint = [(1, 0), (2, 1), (5, 2)]"

definition example_student :: "(unit, nat) StudentImplementation" where
  "example_student = from_footprint example_footprint 2"

text \<open>
  A small library for the scenario. Every path but the empty one can be opened for
  writing; bytes are strings; \<^verbatim>\<open>dill\<close> pickles the student implementation above and nothing
  else; the stand-in for base64 reverses the bytes; every byte string is ASCII.
\<close>

definition example_library :: "((unit, nat) StudentImplementation, string) library" where
  "example_library =
     \<lparr>open_wb = (\<lambda>path. if path = [] then Some FileNotFoundError else None),
      dill_dump =
        (\<lambda>stu. if stu = example_student then (''pickle'', None)
               else ([], Some (OtherError ''PicklingError''))),
      dill_load =
        (\<lambda>bits. if bits = ''pickle'' then Inr example_student
                else Inl (OtherError ''UnpicklingError'')),
      dill_dumps =
        (\<lambda>stu. if stu = example_student then Inr ''pickle''
               else Inl (OtherError ''PicklingError'')),
      dill_loads =
        (\<lambda>bits. if bits = ''pickle'' then Inr example_student
                else Inl (OtherError ''UnpicklingError'')),
      b64encode = rev,
      b64decode = (\<lambda>bits. Inr (rev bits)),
      decode_ascii = Inr,
      encode_ascii = Inr\<rparr>"

section \<open>Properties\<close>

subsection \<open>Auxiliary facts\<close>

lemma py_max_nonempty: "ts \<noteq> [] \<Longrightarrow> py_max ts = Inr (Max (set ts))"
proof (cases ts)
  case Nil
  assume "ts \<noteq> []"
  with Nil show ?thesis by simp
next
  case (Cons t ts')
  then show ?thesis using Max.set_eq_fold [of t ts'] by simp
qed

lemma run_each_references:
  "run_each run (Some fp) grp (map RI rs) = Inr (map (\<lambda>r. run r fp grp) rs)"
  by (induction rs) simp_all

lemma from_footprint_fields:
  "from_footprint fp s = \<lparr>nb = None, nb_path = None, values' = Some fp, steps = Some s\<rparr>"
  by (simp add: from_footprint_def init_None_def)

subsection \<open>Construction from a footprint\<close>

text \<open>\<^verbatim>\<open>cls(None)\<close>, the first line of \<^verbatim>\<open>from_footprint\<close>, is the object \<open>init_None\<close>; the
  engine is not run. An argument of an unsupported type is refused.\<close>

lemma init_PathNone:
  "init nbformat_read execute_notebook PathNone addl_filenames output = Inr init_None"
  by (simp add: init_def)

lemma init_PathOther:
  "init nbformat_read execute_notebook PathOther addl_filenames output = Inl TypeError"
  by (simp add: init_def)

text \<open>
  Claim C10. \<^verbatim>\<open>from_footprint\<close> stores the footprint and the step count it is given as they
  are and validates neither: the footprint \<^verbatim>\<open>[(v, 5)]\<close> with step count 0 gives a student
  implementation whose step count is 0 although the maximum timestamp of its footprint
  is 5. The object has no source metadata: \<^verbatim>\<open>nb\<close> and \<^verbatim>\<open>nb_path\<close> are both \<^verbatim>\<open>None\<close>.
\<close>

theorem from_footprint_stores_verbatim:
  "values' (from_footprint fp s) = Some fp
   \<and> steps (from_footprint fp s) = Some s
   \<and> nb (from_footprint fp s) = None
   \<and> nb_path (from_footprint fp s) = None
   \<and> steps (from_footprint [(v, 5)] 0) = Some 0
   \<and> py_max (map snd [(v, 5)]) = Inr 5"
  by (simp add: from_footprint_fields)

subsection \<open>The checking dispatcher\<close>

text \<open>The list comprehension stops with \<^verbatim>\<open>AttributeError\<close> when the list holds something
  that is not a reference implementation, whether the footprint is set or not.\<close>

lemma run_each_non_reference:
  "\<not> list_all isinstance_ReferenceImplementation xs
   \<Longrightarrow> run_each run vals grp xs = Inl AttributeError"
proof (induction xs)
  case Nil
  then show ?case by simp
next
  case (Cons x xs)
  show ?case
  proof (cases x)
    case (RI r)
    with Cons show ?thesis by (cases vals) simp_all
  qed simp_all
qed

lemma dispatcher_list_with_non_reference:
  "\<not> list_all isinstance_ReferenceImplementation xs
   \<Longrightarrow> StudentImplementation_check run self (PyList xs) grp = (self, Inl AttributeError)"
  by (simp add: StudentImplementation_check_def run_each_non_reference)

text \<open>
  Claim C5, as amended. For a student implementation that owns a footprint, \<^verbatim>\<open>check\<close> with
  a single reference implementation returns the bare result of running it once on the
  footprint with the given group; \<^verbatim>\<open>check\<close> with a list whose elements are all reference
  implementations returns the list of their results in the order of the list, each run on
  the same footprint with the same group; and \<^verbatim>\<open>check\<close> with an argument that is neither
  a reference implementation nor a list raises \<^verbatim>\<open>TypeError\<close>.
\<close>

theorem dispatcher_single_list_other:
  "(values' self = Some fp \<longrightarrow>
      StudentImplementation_check run self (RI r) grp = (self, Inr (Single (run r fp grp)))
      \<and> StudentImplementation_check run self (PyList (map RI rs)) grp
          = (self, Inr (Many (map (\<lambda>r. run r fp grp) rs))))
   \<and> (\<not> isinstance_ReferenceImplementation ref \<and> \<not> isinstance_list ref \<longrightarrow>
      StudentImplementation_check run self ref grp = (self, Inl TypeError))"
proof -
  have single_and_list:
    "StudentImplementation_check run self (RI r) grp = (self, Inr (Single (run r fp grp)))
     \<and> StudentImplementation_check run self (PyList (map RI rs)) grp
         = (self, Inr (Many (map (\<lambda>r. run r fp grp) rs)))"
    if "values' self = Some fp"
    using that by (simp add: StudentImplementation_check_def run_each_references)
  have other: "StudentImplementation_check run self ref grp = (self, Inl TypeError)"
    if "\<not> isinstance_ReferenceImplementation ref" and "\<not> isinstance_list ref"
    using that by (cases ref) (simp_all add: StudentImplementation_check_def)
  from single_and_list other show ?thesis by blast
qed

theorem dispatcher_single_list_other_witness:
  "values' example_student = Some example_footprint
   \<and> StudentImplementation_check example_run example_student (RI 10) None
       = (example_student, Inr (Single 13))
   \<and> StudentImplementation_check example_run example_student (PyList [RI 10, RI 20]) None
       = (example_student, Inr (Many [13, 23]))
   \<and> \<not> isinstance_ReferenceImplementation (Str ''ref.pkl'' :: nat pyval)
   \<and> \<not> isinstance_list (Str ''ref.pkl'' :: nat pyval)
   \<and> StudentImplementation_check example_run example_student (Str ''ref.pkl'') None
       = (example_student, Inl TypeError)"
  using dispatcher_single_list_other
    [where self = example_student and fp = example_footprint and run = example_run
       and r = 10 and grp = None and rs = "[10, 20]" and ref = "Str ''ref.pkl''"]
  by (simp add: example_student_def example_footprint_def example_run_def from_footprint_fields)

text \<open>
  Claim C5 as stated fails: a list that holds a reference implementation and a string is
  not a list of reference implementations, yet \<^verbatim>\<open>check\<close> does not raise \<^verbatim>\<open>TypeError\<close> on it.
  Lines 152 and 153 do not look at the elements; the comprehension runs the first
  reference and raises \<^verbatim>\<open>AttributeError\<close> at the string, which has no \<^verbatim>\<open>run\<close>.
\<close>

theorem dispatcher_mixed_list_raises_AttributeError:
  "StudentImplementation_check example_run example_student (PyList [RI 10, Str ''x'']) None
     = (example_student, Inl AttributeError)"
  by (simp add: StudentImplementation_check_def example_student_def from_footprint_fields)

text \<open>
  Claim C9. Checking against any reference argument and serializing to either persisted
  form leave the student implementation as it was: its footprint, its step count and its
  source metadata are those from before the call, also when the call raises. \<^verbatim>\<open>dump\<close>
  changes the file system, at the destination only, and not at all when the destination
  cannot be opened.
\<close>

theorem operations_leave_self_unchanged:
  "fst (StudentImplementation_check run self ref grp) = self
   \<and> fst (dumps lib self) = self
   \<and> fst (dump lib self dest files) = self
   \<and> fst (snd (dump lib self dest files))
       = (case open_wb lib dest of
            Some e \<Rightarrow> files
          | None \<Rightarrow> files(dest \<mapsto> fst (dill_dump lib self)))"
proof -
  have "fst (StudentImplementation_check run self ref grp) = self"
    by (cases ref) (simp_all add: StudentImplementation_check_def split: option.split sum.split)
  moreover have "fst (dumps lib self) = self"
    by (simp add: dumps_def split: sum.split)
  moreover have "fst (dump lib self dest files) = self"
    by (simp add: dump_def split: prod.split option.split)
  moreover have "fst (snd (dump lib self dest files))
      = (case open_wb lib dest of
           Some e \<Rightarrow> files
         | None \<Rightarrow> files(dest \<mapsto> fst (dill_dump lib self)))"
    by (simp add: dump_def split: prod.split option.split)
  ultimately show ?thesis by blast
qed

text \<open>A destination that cannot be opened: \<^verbatim>\<open>dump\<close> raises the exception of \<^verbatim>\<open>open\<close> and
  writes nothing.\<close>

lemma dump_unopenable:
  "open_wb lib dest = Some e \<Longrightarrow> dump lib self dest files = (self, files, Some e)"
  by (simp add: dump_def)

lemma dump_unopenable_scenario:
  "dump example_library example_student [] Map.empty
     = (example_student, Map.empty, Some FileNotFoundError)"
  by (simp add: dump_def example_library_def)

subsection \<open>Plagiarism checking\<close>

text \<open>
  Claim C8. \<^verbatim>\<open>check_plagiarism\<close> has exactly one reference implementation synthesized, from
  the calling student implementation and with the keyword arguments forwarded, and returns
  the list of results of comparing each peer with that reference under the same keyword
  arguments: as many results as peers, result number i belonging to peer number i.
\<close>

theorem check_plagiarism_aligned:
  "create_references synthesize [self] kwargs = [synthesize self kwargs]
   \<and> check_plagiarism synthesize compare self student_impls kwargs
       = (self, Inr (map (\<lambda>stu. compare (synthesize self kwargs) stu kwargs) student_impls))
   \<and> (i < length student_impls \<longrightarrow>
        (case snd (check_plagiarism synthesize compare self student_impls kwargs) of
           Inl e \<Rightarrow> False
         | Inr results \<Rightarrow>
             length results = length student_impls
             \<and> results ! i = compare (synthesize self kwargs) (student_impls ! i) kwargs))"
  by (simp add: check_plagiarism_def create_references_def get_impl_results_def)

theorem check_plagiarism_aligned_witness:
  "(1::nat) < length [example_student, from_footprint [] 0]
   \<and> (case snd (check_plagiarism (\<lambda>stu k. steps stu) (\<lambda>r stu k. r = steps stu) example_student
                  [example_student, from_footprint [] 0] ()) of
         Inl e \<Rightarrow> False
       | Inr results \<Rightarrow> length results = 2 \<and> results ! 1 = False)"
  using check_plagiarism_aligned
    [where synthesize = "\<lambda>stu k. steps stu" and compare = "\<lambda>r stu k. r = steps stu"
       and self = example_student and student_impls = "[example_student, from_footprint [] 0]"
       and kwargs = "()" and i = 1]
  by (simp add: example_student_def from_footprint_fields)

subsection \<open>Serialization\<close>

text \<open>
  Claim C7. Provided the libraries keep their contracts on the student implementation at
  hand (unpickling what \<^verbatim>\<open>dill\<close> pickled gives the object back, base64 decoding undoes
  base64 encoding, and encoding to ASCII undoes decoding from ASCII), a successful
  \<^verbatim>\<open>dumps\<close> followed by \<^verbatim>\<open>loads\<close>, and a successful \<^verbatim>\<open>dump\<close> followed by \<^verbatim>\<open>load\<close> of the same
  file, yield a student implementation whose \<^verbatim>\<open>check\<close> against any reference returns what
  the original's returns. Neither \<^verbatim>\<open>loads\<close> nor \<^verbatim>\<open>load\<close> takes the execution engine: the
  notebook is not executed again.
\<close>

theorem serialization_round_trip:
  assumes pickled: "\<And>bits. dill_dumps lib self = Inr bits \<Longrightarrow> dill_loads lib bits = Inr self"
    and written: "\<And>bits. dill_dump lib self = (bits, None) \<Longrightarrow> dill_load lib bits = Inr self"
    and base64: "\<And>bits. b64decode lib (b64encode lib bits) = Inr bits"
    and ascii: "\<And>bits s. decode_ascii lib bits = Inr s \<Longrightarrow> encode_ascii lib s = Inr bits"
  shows "(snd (dumps lib self) = Inr data \<longrightarrow>
            (\<exists>stu. loads lib data = Inr stu
               \<and> snd (StudentImplementation_check run stu ref grp)
                   = snd (StudentImplementation_check run self ref grp)))
         \<and> (snd (snd (dump lib self dest files)) = None \<longrightarrow>
            (\<exists>stu. load lib dest (fst (snd (dump lib self dest files))) = Inr stu
               \<and> snd (StudentImplementation_check run stu ref grp)
                   = snd (StudentImplementation_check run self ref grp)))"
proof -
  have string_form: "loads lib data = Inr self" if "snd (dumps lib self) = Inr data"
  proof (cases "dill_dumps lib self")
    case (Inl e)
    with that show ?thesis by (simp add: dumps_def)
  next
    case (Inr bits)
    with that have "decode_ascii lib (b64encode lib bits) = Inr data"
      by (simp add: dumps_def)
    then have "encode_ascii lib data = Inr (b64encode lib bits)"
      by (rule ascii)
    moreover have "dill_loads lib bits = Inr self"
      using Inr by (rule pickled)
    ultimately show ?thesis
      by (simp add: loads_def base64)
  qed
  have file_form: "load lib dest (fst (snd (dump lib self dest files))) = Inr self"
    if "snd (snd (dump lib self dest files)) = None"
  proof -
    obtain bits exc where d: "dill_dump lib self = (bits, exc)"
      by (cases "dill_dump lib self")
    from that have opened: "open_wb lib dest = None"
      by (cases "open_wb lib dest") (simp_all add: dump_def)
    with that d have "exc = None" by (simp add: dump_def)
    with d have "dill_load lib bits = Inr self" by (simp add: written)
    with d opened show ?thesis by (simp add: dump_def load_def)
  qed
  from string_form file_form show ?thesis by auto
qed

theorem serialization_round_trip_witness:
  "snd (dumps example_library example_student) = Inr ''elkcip''
   \<and> (\<exists>stu. loads example_library ''elkcip'' = Inr stu
         \<and> snd (StudentImplementation_check example_run stu (RI 10) None)
             = snd (StudentImplementation_check example_run example_student (RI 10) None))
   \<and> snd (snd (dump example_library example_student ''student.pkl'' Map.empty)) = None
   \<and> (\<exists>stu. load example_library ''student.pkl''
               (fst (snd (dump example_library example_student ''student.pkl'' Map.empty)))
             = Inr stu
         \<and> snd (StudentImplementation_check example_run stu (RI 10) None)
             = snd (StudentImplementation_check example_run example_student (RI 10) None))"
proof -
  have pickled: "\<And>bits. dill_dumps example_library example_student = Inr bits
      \<Longrightarrow> dill_loads example_library bits = Inr example_student"
    by (auto simp add: example_library_def)
  have written: "\<And>bits. dill_dump example_library example_student = (bits, None)
      \<Longrightarrow> dill_load example_library bits = Inr example_student"
    by (auto simp add: example_library_def)
  have base64: "\<And>bits. b64decode example_library (b64encode example_library bits) = Inr bits"
    by (simp add: example_library_def)
  have ascii: "\<And>bits s. decode_ascii example_library bits = Inr s
      \<Longrightarrow> encode_ascii example_library s = Inr bits"
    by (simp add: example_library_def)
  have string_form: "snd (dumps example_library example_student) = Inr ''elkcip''"
    by (simp add: dumps_def example_library_def)
  have file_form:
    "snd (snd (dump example_library example_student ''student.pkl'' Map.empty)) = None"
    by (simp add: dump_def example_library_def)
  from serialization_round_trip
    [where lib = example_library and self = example_student and data = "''elkcip''"
       and dest = "''student.pkl''" and files = Map.empty and run = example_run
       and ref = "RI 10" and grp = None, OF pickled written base64 ascii]
    string_form file_form
  show ?thesis by blast
qed

subsection \<open>The context manager\<close>

text \<open>The definitions that evaluate a run of the context manager in the concrete scenario.\<close>

lemmas scenario_defs =
  check_def check_setup_def check_validate_def check_all_def check_teardown_def
  check_artifact_def check_report_def currently_tracing_def create_collector_def
  tracing_on_def tracing_off_def observed_def record_observation_def print_line_def
  observe_def raise_def pass_def seq_def from_footprint_fields StudentImplementation_check_def
  idle_def traced_def example_run_def example_load_def example_messages_def

lemma observed_tracing_off: "observed c (tracing_off w) = observed c w"
  by (simp add: observed_def tracing_off_def)

lemma check_artifact_nonempty:
  "obs \<noteq> [] \<Longrightarrow> check_artifact obs = Inr (from_footprint obs (Max (snd ` set obs)))"
  using py_max_nonempty [of "map snd obs"] by (simp add: check_artifact_def)

text \<open>
  Claim C1, as amended. When the footprint collected during the block is not empty, the
  student implementation built at exit (line 208) owns that footprint and has as step
  count the maximum timestamp over its observations; it is this object that is checked
  against the references for the report.
\<close>

theorem exit_step_count_is_max_timestamp:
  "observed c (w :: ('k, 'v, 'm) world) \<noteq> [] \<longrightarrow>
     (\<exists>stu :: (unit, 'v) StudentImplementation.
        check_artifact (observed c (tracing_off w)) = Inr stu
        \<and> values' stu = Some (observed c w)
        \<and> steps stu = Some (Max (snd ` set (observed c w)))
        \<and> check_teardown run messages ref c w =
            (case snd (StudentImplementation_check run stu ref None) of
               Inl e \<Rightarrow> (tracing_off w, Some e)
             | Inr res \<Rightarrow> check_report messages res (tracing_off w)))"
proof
  assume nonempty: "observed c w \<noteq> []"
  let ?stu = "from_footprint (observed c w) (Max (snd ` set (observed c w)))
                :: (unit, 'v) StudentImplementation"
  have built: "check_artifact (observed c (tracing_off w)) = Inr ?stu"
    using nonempty by (simp add: observed_tracing_off check_artifact_nonempty)
  moreover have "values' ?stu = Some (observed c w)"
    and "steps ?stu = Some (Max (snd ` set (observed c w)))"
    by (simp_all add: from_footprint_fields)
  moreover have "check_teardown run messages ref c w =
      (case snd (StudentImplementation_check run ?stu ref None) of
         Inl e \<Rightarrow> (tracing_off w, Some e)
       | Inr res \<Rightarrow> check_report messages res (tracing_off w))"
    using built by (simp add: check_teardown_def Let_def)
  ultimately show "\<exists>stu :: (unit, 'v) StudentImplementation.
        check_artifact (observed c (tracing_off w)) = Inr stu
        \<and> values' stu = Some (observed c w)
        \<and> steps stu = Some (Max (snd ` set (observed c w)))
        \<and> check_teardown run messages ref c w =
            (case snd (StudentImplementation_check run stu ref None) of
               Inl e \<Rightarrow> (tracing_off w, Some e)
             | Inr res \<Rightarrow> check_report messages res (tracing_off w))"
    by blast
qed

theorem exit_step_count_is_max_timestamp_witness:
  "observed 0 (\<lparr>tracer = Some 0, collectors = [((), example_footprint)], activations = 1,
                 stdout = []\<rparr> :: (unit, nat, nat) world) \<noteq> []
   \<and> (\<exists>stu :: (unit, nat) StudentImplementation.
         check_artifact example_footprint = Inr stu
         \<and> values' stu = Some example_footprint
         \<and> steps stu = Some 2)"
proof -
  let ?w = "\<lparr>tracer = Some 0, collectors = [((), example_footprint)], activations = 1,
              stdout = []\<rparr> :: (unit, nat, nat) world"
  have collected: "observed 0 ?w = example_footprint"
    by (simp add: observed_def)
  have "example_footprint \<noteq> []"
    by (simp add: example_footprint_def)
  with collected have nonempty: "observed 0 ?w \<noteq> []"
    by simp
  have latest: "Max (snd ` set example_footprint) = 2"
    by (simp add: example_footprint_def)
  from exit_step_count_is_max_timestamp
    [where c = 0 and w = ?w and run = example_run and messages = example_messages
       and ref = "PyList [RI 1]"] nonempty
  obtain stu :: "(unit, nat) StudentImplementation" where
    "check_artifact (observed 0 (tracing_off ?w)) = Inr stu"
    and "values' stu = Some (observed 0 ?w)"
    and "steps stu = Some (Max (snd ` set (observed 0 ?w)))"
    by blast
  then have "check_artifact example_footprint = Inr stu
      \<and> values' stu = Some example_footprint \<and> steps stu = Some 2"
    by (simp only: observed_tracing_off collected latest simp_thms)
  with nonempty show ?thesis by blast
qed

text \<open>
  Claim C1 as stated fails for the empty footprint: \<^verbatim>\<open>max\<close> of no timestamps raises
  \<^verbatim>\<open>ValueError\<close>, so no student implementation with step count 0 is built. A check around a
  block in which nothing is observed ends with that exception and prints no report.
\<close>

theorem empty_footprint_raises_ValueError:
  "(check_artifact ([] :: nat footprint) :: py_error + (unit, nat) StudentImplementation)
     = Inl ValueError
   \<and> check example_run example_load example_messages (PyList [RI 1]) () pass idle
     = (\<lparr>tracer = None, collectors = [((), [])], activations = 1, stdout = []\<rparr>,
        Some ValueError)"
  by (simp add: scenario_defs)

text \<open>For comparison, the scenario of the specification: three observations with the
  timestamps 0, 1 and 2, one reference, and the report printed at exit.\<close>

lemma check_scenario_report:
  "check example_run example_load example_messages (PyList [RI 1]) ()
     (seq (observe 1 0) (seq (observe 2 1) (observe 5 2))) idle
     = (\<lparr>tracer = None, collectors = [((), [(1, 0), (2, 1), (5, 2)])], activations = 1,
          stdout = [[4]]\<rparr>,
        None)"
  by (simp add: scenario_defs)

text \<open>
  Claim C4, as amended. The context manager \<^verbatim>\<open>check\<close>, entered with an empty list of
  references while tracing is off, raises \<^verbatim>\<open>ValueError\<close> before the block runs and
  before a collector is created: the state is the one from before. The method
  \<^verbatim>\<open>StudentImplementation.check\<close> with an empty list raises nothing and returns the empty
  list of results.
\<close>

theorem empty_reference_list:
  "(\<not> currently_tracing w \<longrightarrow>
      check run ref_load messages (PyList []) kwargs block w = (w, Some ValueError))
   \<and> StudentImplementation_check run self (PyList []) grp = (self, Inr (Many []))"
  by (simp add: check_def check_setup_def check_validate_def StudentImplementation_check_def)

theorem empty_reference_list_witness:
  "\<not> currently_tracing idle
   \<and> check example_run example_load example_messages (PyList []) () (observe 1 0) idle
       = (idle, Some ValueError)"
  using empty_reference_list
    [where w = idle and run = example_run and ref_load = example_load
       and messages = example_messages and kwargs = "()" and block = "observe 1 0"
       and self = example_student and grp = None]
  by (simp add: currently_tracing_def idle_def)

text \<open>
  Claim C4 as stated fails: \<^verbatim>\<open>check\<close> on a student implementation with the empty list
  returns the empty list of results.
\<close>

theorem dispatcher_accepts_empty_list:
  "StudentImplementation_check example_run example_student (PyList []) None
     = (example_student, Inr (Many []))"
  by (simp add: StudentImplementation_check_def)

subsection \<open>Validation of the references\<close>

lemma list_all_RI_map: "list_all isinstance_ReferenceImplementation (map RI rs)"
  by (induction rs) simp_all

lemma list_all_str_map: "list_all isinstance_str (map Str ss)"
  by (induction ss) simp_all

lemma not_all_RI_strs:
  "ss \<noteq> [] \<Longrightarrow> \<not> list_all isinstance_ReferenceImplementation (map Str ss)"
  by (cases ss) simp_all

lemma strs_of_map: "[s. Str s \<leftarrow> map Str ss] = ss"
  by (induction ss) simp_all

lemma load_each_references:
  "load_each ref_load ss = Inr rs
   \<Longrightarrow> list_all isinstance_ReferenceImplementation rs \<and> length rs = length ss"
  by (induction ss arbitrary: rs) (auto split: sum.splits)

lemma check_list_strings:
  "ss \<noteq> [] \<Longrightarrow> check_list ref_load (PyList (map Str ss)) =
     (case load_each ref_load ss of Inl e \<Rightarrow> Inl e | Inr rs \<Rightarrow> Inr (PyList rs))"
  unfolding check_list.simps strs_of_map
  by (simp add: list_all_str_map not_all_RI_strs)

text \<open>A string is loaded and becomes a list of one reference.\<close>

lemma check_validate_string:
  "check_validate ref_load (Str s) =
     (case ref_load s of Inl e \<Rightarrow> Inl e | Inr r \<Rightarrow> Inr (PyList [RI r]))"
  by (simp add: check_validate_def check_all_def split: sum.split)

text \<open>A list of references is kept as it is, unless it is empty.\<close>

lemma check_validate_references:
  "check_validate ref_load (PyList (map RI rs)) =
     (if rs = [] then Inl ValueError else Inr (PyList (map RI rs)))"
  by (simp add: check_validate_def check_all_def list_all_RI_map)

text \<open>A non-empty list of strings becomes the list of the references loaded, in order.\<close>

lemma check_validate_strings:
  "ss \<noteq> [] \<Longrightarrow> check_validate ref_load (PyList (map Str ss)) =
     (case load_each ref_load ss of Inl e \<Rightarrow> Inl e | Inr rs \<Rightarrow> Inr (PyList rs))"
  by (auto simp add: check_validate_def check_all_def check_list_strings
      simp del: check_list.simps dest: load_each_references split: sum.split)

text \<open>A list that holds neither references only nor strings only is refused.\<close>

lemma check_validate_mixed:
  "\<not> list_all isinstance_ReferenceImplementation xs \<Longrightarrow> \<not> list_all isinstance_str xs
   \<Longrightarrow> check_validate ref_load (PyList xs) = Inl TypeError"
  by (cases xs) (simp_all add: check_validate_def)

lemma strings_of_all_str:
  "list_all isinstance_str xs \<Longrightarrow> map Str [s. Str s \<leftarrow> xs] = xs"
proof (induction xs)
  case Nil
  then show ?case by simp
next
  case (Cons x xs)
  then show ?case by (cases x) simp_all
qed

lemma check_list_shape:
  assumes "check_list ref_load (PyList xs) = Inr ref'"
  shows "\<exists>ys. ref' = PyList ys \<and> ys \<noteq> [] \<and> list_all isinstance_ReferenceImplementation ys
           \<and> length ys = length xs"
proof (cases "list_all isinstance_ReferenceImplementation xs")
  case True
  with assms show ?thesis by (auto split: if_splits)
next
  case False
  with assms have strs: "list_all isinstance_str xs" and "xs \<noteq> []"
    by (auto split: if_splits)
  with assms False obtain ys where
    loaded: "load_each ref_load [s. Str s \<leftarrow> xs] = Inr ys" and "ref' = PyList ys"
    by (auto split: if_splits sum.splits)
  from load_each_references [OF loaded]
  have "list_all isinstance_ReferenceImplementation ys"
    and "length ys = length [s. Str s \<leftarrow> xs]" by simp_all
  moreover have "length [s. Str s \<leftarrow> xs] = length xs"
    using strings_of_all_str [OF strs] by (metis length_map)
  ultimately show ?thesis using \<open>ref' = PyList ys\<close> \<open>xs \<noteq> []\<close> by auto
qed

text \<open>What the validation lets through is a non-empty list of reference implementations,
  or a tuple of reference implementations, which is kept as a tuple.\<close>

lemma check_validate_shape:
  assumes "check_validate ref_load ref = Inr ref'"
  shows "(\<exists>ys. ref' = PyList ys \<and> ys \<noteq> [] \<and> list_all isinstance_ReferenceImplementation ys)
       \<or> (\<exists>ys. ref = PyTuple ys \<and> ref' = PyTuple ys \<and> list_all isinstance_ReferenceImplementation ys)"
proof (cases ref)
  case (RI r)
  with assms show ?thesis by (simp add: check_validate_def check_all_def)
next
  case (Str s)
  with assms show ?thesis
    by (auto simp add: check_validate_def check_all_def split: sum.splits)
next
  case (PyList xs)
  with assms obtain ref2 where l: "check_list ref_load (PyList xs) = Inr ref2"
    and a: "check_all ref2 = Inr ref'"
    by (auto simp add: check_validate_def split: sum.splits)
  from check_list_shape [OF l] obtain ys where "ref2 = PyList ys" "ys \<noteq> []"
    "list_all isinstance_ReferenceImplementation ys" by blast
  with a show ?thesis by (auto simp add: check_all_def)
next
  case (PyTuple ys)
  with assms show ?thesis
    by (auto simp add: check_validate_def check_all_def split: if_splits)
next
  case PyNone
  with assms show ?thesis by (simp add: check_validate_def check_all_def)
qed

text \<open>When tracing is off and the validation fails, the exception leaves the with-statement
  with the state untouched: no collector was created, tracing was not switched on and the
  block did not run.\<close>

lemma check_invalid_before_tracing:
  "\<not> currently_tracing w \<Longrightarrow> check_validate ref_load ref = Inl e
   \<Longrightarrow> check run ref_load messages ref kwargs block w = (w, Some e)"
  by (simp add: check_def check_setup_def)

text \<open>
  Claim C6. The claim has a single reference implementation accepted and normalized to a
  list of one. The code wraps a string in a list (line 188) but not a reference
  implementation: the object reaches line 196 as it is, where it is iterated, and the
  with-statement raises \<^verbatim>\<open>TypeError\<close> before the block runs.
\<close>

theorem single_reference_is_rejected:
  "check_validate example_load (RI 1) = Inl TypeError
   \<and> check example_run example_load example_messages (RI 1) () pass idle
     = (idle, Some TypeError)"
  by (simp add: scenario_defs)

subsection \<open>Entering while tracing is on\<close>

text \<open>A block that raises does so through the with-statement, which adds nothing.\<close>

lemma check_nested_block_raises:
  "currently_tracing w \<Longrightarrow> block w = (w1, Some e)
   \<Longrightarrow> check run ref_load messages ref kwargs block w = (w1, Some e)"
  by (simp add: check_def)

text \<open>A block that completes is followed by lines 187 to 204: with valid references a
  collector is created and its tracing function installed, and the with-statement ends
  in \<^verbatim>\<open>RuntimeError\<close>.\<close>

lemma check_nested_falls_through:
  "currently_tracing w \<Longrightarrow> block w = (w1, None) \<Longrightarrow> check_validate ref_load ref = Inr ref'
   \<Longrightarrow> check run ref_load messages ref kwargs block w =
       (w1\<lparr>collectors := collectors w1 @ [(kwargs, [])],
           tracer := Some (length (collectors w1)),
           activations := activations w1 + 1\<rparr>, Some RuntimeError)"
  by (simp add: check_def check_setup_def create_collector_def tracing_on_def)

text \<open>
  Claim C2. The claim has a check that is entered while tracing is on create no second
  collector and switch tracing on no second time. In the code the generator has no
  \<^verbatim>\<open>return\<close> after the \<^verbatim>\<open>yield\<close> of line 185. With collector 0 installed and a block that
  makes one observation, the observation goes to collector 0, and at exit a collector 1 is
  created, \<^verbatim>\<open>tracing_on\<close> is called a second time and installs it, and the with-statement
  raises \<^verbatim>\<open>RuntimeError\<close>. The same happens to a check nested in the block of another: the
  outer check ends with the inner one's exception, collector 1 installed and no report.
\<close>

theorem nested_check_creates_second_collector:
  "check example_run example_load example_messages (PyList [RI 1]) () (observe 2 1) traced
     = (\<lparr>tracer = Some 1, collectors = [((), [(1, 0), (2, 1)]), ((), [])],
          activations = 2, stdout = []\<rparr>,
        Some RuntimeError)
   \<and> check example_run example_load example_messages (PyList [RI 1]) ()
       (seq (observe 1 0)
          (seq (check example_run example_load example_messages (PyList [RI 2]) ()
                  (observe 2 1))
             (observe 5 2)))
       idle
     = (\<lparr>tracer = Some 1, collectors = [((), [(1, 0), (2, 1)]), ((), [])],
          activations = 2, stdout = []\<rparr>,
        Some RuntimeError)"
  by (simp add: scenario_defs)

subsection \<open>Leaving the block\<close>

text \<open>Once the references are validated, the new collector is installed and empty.\<close>

lemma check_setup_installs:
  "check_setup ref_load ref kwargs w = Inr (ref', c, w1)
   \<Longrightarrow> tracer w1 = Some c \<and> c = length (collectors w) \<and> observed c w1 = []"
  by (auto simp add: check_setup_def create_collector_def tracing_on_def observed_def
      split: sum.splits)

text \<open>After lines 206 to 210 tracing is off, whether the report was printed or not.\<close>

lemma check_teardown_tracing_off:
  "\<not> currently_tracing (fst (check_teardown run messages ref c w))"
  by (simp add: check_teardown_def check_report_def currently_tracing_def tracing_off_def
      print_line_def Let_def split: sum.split check_result.split)

text \<open>A block that completes is followed by lines 206 to 210, so tracing is off when the
  with-statement is left.\<close>

lemma check_block_completes:
  "\<not> currently_tracing w \<Longrightarrow> check_setup ref_load ref kwargs w = Inr (ref', c, w1)
   \<Longrightarrow> block w1 = (w2, None)
   \<Longrightarrow> \<not> currently_tracing (fst (check run ref_load messages ref kwargs block w))"
  by (simp add: check_def check_teardown_tracing_off)

text \<open>A block that raises leaves the with-statement in the state the block ended in.\<close>

lemma check_block_raises:
  "\<not> currently_tracing w \<Longrightarrow> check_setup ref_load ref kwargs w = Inr (ref', c, w1)
   \<Longrightarrow> block w1 = (w2, Some e)
   \<Longrightarrow> check run ref_load messages ref kwargs block w = (w2, Some e)"
  by (simp add: check_def)

text \<open>A block that completes with a non-empty footprint is followed by the report: the
  messages of the results of the references, in their order, each run on the footprint
  collected, with no group.\<close>

lemma check_reports_in_order:
  assumes "\<not> currently_tracing w"
    and "check_setup ref_load ref kwargs w = Inr (PyList (map RI rs), c, w1)"
    and "block w1 = (w2, None)"
    and "observed c w2 \<noteq> []"
  shows "check run ref_load messages ref kwargs block w =
    (print_line (map (\<lambda>r. messages (run r (observed c w2) None)) rs) (tracing_off w2), None)"
proof -
  have "check run ref_load messages ref kwargs block w
      = check_teardown run messages (PyList (map RI rs)) c w2"
    using assms(1-3) by (simp add: check_def)
  also have "\<dots> = (print_line (map (\<lambda>r. messages (run r (observed c w2) None)) rs)
                      (tracing_off w2), None)"
    using assms(4)
    by (simp add: check_teardown_def Let_def observed_tracing_off check_artifact_nonempty
        StudentImplementation_check_def from_footprint_fields run_each_references
        check_report_def comp_def)
  finally show ?thesis .
qed

text \<open>
  Claim C3. The claim has tracing switched off on every exit path of a block for which it
  was switched on. In the code the \<^verbatim>\<open>yield\<close> of line 204 is not inside a
  \<^verbatim>\<open>try\<close> with a \<^verbatim>\<open>finally\<close>, so an exception of the block skips line 206. With tracing off
  at entry and a block that makes one observation and then raises, the with-statement is
  left with the exception, without a report, and with the tracing function of collector 0
  still installed.
\<close>

theorem raising_block_leaves_tracing_on:
  "check example_run example_load example_messages (PyList [RI 1]) ()
     (seq (observe 1 0) (raise (OtherError ''boom''))) idle
     = (\<lparr>tracer = Some 0, collectors = [((), [(1, 0)])], activations = 1, stdout = []\<rparr>,
        Some (OtherError ''boom''))
   \<and> currently_tracing
       (fst (check example_run example_load example_messages (PyList [RI 1]) ()
               (seq (observe 1 0) (raise (OtherError ''boom''))) idle))"
  by (simp add: scenario_defs)

end
